theory Spec2Isabelle
  imports Main
begin

section \<open>The key generator of \<^verbatim>\<open>generate_api_key.py\<close>\<close>

text \<open>
  The script draws every character of a key with \<^verbatim>\<open>secrets.choice\<close> from
  \<^verbatim>\<open>string.ascii_letters + string.digits\<close>, prepends the prefix given on the
  command line and prints the line. Python's unbounded integers are \<open>int\<close>, its
  exceptions are values of a sum type, and the two things the script does beyond
  computing (reading the system's random source, writing a line) are explicit state.
\<close>

subsection \<open>Constants of the \<^verbatim>\<open>string\<close> module\<close>

definition ascii_lowercase :: string where
  "ascii_lowercase = ''abcdefghijklmnopqrstuvwxyz''"

definition ascii_uppercase :: string where
  "ascii_uppercase = ''ABCDEFGHIJKLMNOPQRSTUVWXYZ''"

definition ascii_letters :: string where
  "ascii_letters = ascii_lowercase @ ascii_uppercase"

definition digits :: string where
  "digits = ''0123456789''"

subsection \<open>Exceptions and the random source\<close>

datatype py_error = IndexError

text \<open>
  The system's random source is the sequence of its future draws: \<open>e 0\<close> is the next
  raw value, \<open>e 1\<close> the one after. Nothing is assumed about the values, so a statement
  proved for every \<open>e\<close> holds for every run.
\<close>

type_synonym entropy = "nat \<Rightarrow> nat"

text \<open>
  \<^verbatim>\<open>SystemRandom._randbelow(n)\<close> returns an index below \<open>n\<close> made from fresh
  random bits: the next draw, brought into range. It is only called with \<open>0 < n\<close>.
\<close>

definition randbelow :: "nat \<Rightarrow> entropy \<Rightarrow> nat \<times> entropy" where
  "randbelow n e = (e 0 mod n, \<lambda>i. e (Suc i))"

text \<open>
  \<^verbatim>\<open>secrets.choice(seq)\<close>: IndexError on an empty sequence (no randomness is
  read then), else the element at a random index.
\<close>

definition choice :: "'a list \<Rightarrow> entropy \<Rightarrow> (py_error + 'a) \<times> entropy" where
  "choice seq e =
     (if seq = [] then (Inl IndexError, e)
      else (case randbelow (length seq) e of (i, e') \<Rightarrow> (Inr (seq ! i), e')))"

subsection \<open>\<^verbatim>\<open>generate_api_key\<close>\<close>

text \<open>\<^verbatim>\<open>range(n)\<close> counts \<open>0, \<dots>, n - 1\<close> and is empty for \<open>n \<le> 0\<close>.\<close>

definition py_range :: "int \<Rightarrow> int list" where
  "py_range n = [0..n - 1]"

definition alphabet :: string where
  "alphabet = ascii_letters @ digits"

text \<open>
  \<^verbatim>\<open>''.join(secrets.choice(alphabet) for _ in range(length))\<close>: one draw per element
  of the range, in order, the characters joined; an exception of a draw ends the loop.
\<close>

fun join_choices :: "int list \<Rightarrow> string \<Rightarrow> entropy \<Rightarrow> (py_error + string) \<times> entropy" where
  "join_choices [] alpha e = (Inr [], e)"
| "join_choices (_ # rest) alpha e =
     (case choice alpha e of
        (Inl err, e') \<Rightarrow> (Inl err, e')
      | (Inr c, e') \<Rightarrow>
          (case join_choices rest alpha e' of
             (Inl err, e'') \<Rightarrow> (Inl err, e'')
           | (Inr s, e'') \<Rightarrow> (Inr (c # s), e'')))"

definition generate_api_key :: "int \<Rightarrow> entropy \<Rightarrow> (py_error + string) \<times> entropy" where
  "generate_api_key len e = join_choices (py_range len) alphabet e"

subsection \<open>The process: standard streams and the script's last two lines\<close>

text \<open>
  What a run can read and change: the two output streams and the random source.
  The record is extensible; its \<open>more\<close> part stands for everything else the process
  could touch (files, sockets, environment variables).
\<close>

record world =
  stdout :: string
  stderr :: string
  urandom :: entropy

text \<open>\<^verbatim>\<open>print(s)\<close> writes \<open>s\<close> and a newline to standard output.\<close>

definition print :: "string \<Rightarrow> 'a world_scheme \<Rightarrow> 'a world_scheme" where
  "print s w = w\<lparr>stdout := stdout w @ s @ [CHR 0x0A]\<rparr>"

text \<open>The \<^verbatim>\<open>argparse.Namespace\<close> that \<^verbatim>\<open>parse_args\<close> returns: \<^verbatim>\<open>args.length\<close>, \<^verbatim>\<open>args.prefix\<close>.\<close>

record namespace =
  args_length :: int
  args_prefix :: string

text \<open>
  The spec's \<open>run(options)\<close> is the end of the script:
  \<^verbatim>\<open>api_key = args.prefix + generate_api_key(args.length); print(api_key)\<close>.
  An exception of the generator leaves before anything is printed.
\<close>

definition run :: "namespace \<Rightarrow> 'a world_scheme \<Rightarrow> (py_error + unit) \<times> 'a world_scheme" where
  "run args w =
     (case generate_api_key (args_length args) (urandom w) of
        (Inl err, e') \<Rightarrow> (Inl err, w\<lparr>urandom := e'\<rparr>)
      | (Inr key, e') \<Rightarrow> (Inr (), print (args_prefix args @ key) (w\<lparr>urandom := e'\<rparr>)))"

section \<open>The command line: \<^verbatim>\<open>argparse\<close> as the script configures it\<close>

text \<open>
  The script builds an \<^verbatim>\<open>ArgumentParser\<close> with two options of its own,
  \<^verbatim>\<open>-l/--length\<close> (\<^verbatim>\<open>type=int, default=32\<close>) and \<^verbatim>\<open>-p/--prefix\<close>
  (\<^verbatim>\<open>type=str, default=""\<close>); the parser adds \<^verbatim>\<open>-h/--help\<close> itself. What
  \<^verbatim>\<open>parse_args\<close> does with this configuration is written out below after CPython
  3.11's \<^verbatim>\<open>argparse.py\<close>, function by function, specialised to a parser with no
  positional arguments. A character is a code point below 256; among those the decimal
  digits are \<open>0\<close> to \<open>9\<close>.
\<close>

subsection \<open>What the parser takes from the interpreter\<close>

text \<open>
  Four texts and two builtins are not fixed by the script and are parameters:
  the program name (\<^verbatim>\<open>os.path.basename(sys.argv[0])\<close>), the usage and help texts the
  formatter lays out for the terminal's width, the traceback the interpreter prints for
  an uncaught exception, \<^verbatim>\<open>int\<close> on a string (\<open>None\<close> where it raises ValueError) and
  \<^verbatim>\<open>repr\<close> of a string (the \<^verbatim>\<open>%r\<close> of the error messages).
\<close>

record pylib =
  prog :: string
  format_usage :: string
  format_help :: string
  format_traceback :: "py_error \<Rightarrow> string"
  py_int :: "string \<Rightarrow> int option"
  repr :: "string \<Rightarrow> string"

subsection \<open>Actions and option strings\<close>

datatype action = Help | Length | Prefix

text \<open>\<^verbatim>\<open>parser._option_string_actions\<close>, in the order the options were added.\<close>

definition option_string_actions :: "(string \<times> action) list" where
  "option_string_actions =
     [(''-h'', Help), (''--help'', Help),
      (''-l'', Length), (''--length'', Length),
      (''-p'', Prefix), (''--prefix'', Prefix)]"

text \<open>The help action has \<^verbatim>\<open>nargs=0\<close>; a store action with \<^verbatim>\<open>nargs=None\<close> takes one argument.\<close>

fun nargs :: "action \<Rightarrow> nat" where
  "nargs Help = 0"
| "nargs Length = 1"
| "nargs Prefix = 1"

fun action_name :: "action \<Rightarrow> string" where
  "action_name Help = ''-h/--help''"
| "action_name Length = ''-l/--length''"
| "action_name Prefix = ''-p/--prefix''"

text \<open>\<^verbatim>\<open>str(ArgumentError(action, msg))\<close>.\<close>

definition argument_error :: "action \<Rightarrow> string \<Rightarrow> string" where
  "argument_error a msg = ''argument '' @ action_name a @ '': '' @ msg"

subsection \<open>String methods\<close>

definition startswith :: "string \<Rightarrow> string \<Rightarrow> bool" where
  "startswith s p = (take (length p) s = p)"

text \<open>\<^verbatim>\<open>s.partition('=')\<close>: the part before the first \<open>=\<close>, the separator found, the rest.\<close>

definition partition_eq :: "string \<Rightarrow> string \<times> string \<times> string" where
  "partition_eq s =
     (case dropWhile (\<lambda>c. c \<noteq> CHR ''='') s of
        [] \<Rightarrow> (s, [], [])
      | _ # after \<Rightarrow> (takeWhile (\<lambda>c. c \<noteq> CHR ''='') s, ''='', after))"

text \<open>\<^verbatim>\<open>sep.join(xs)\<close>.\<close>

fun join_with :: "string \<Rightarrow> string list \<Rightarrow> string" where
  "join_with sep [] = []"
| "join_with sep [x] = x"
| "join_with sep (x # y # ys) = x @ sep @ join_with sep (y # ys)"

definition is_digit :: "char \<Rightarrow> bool" where
  "is_digit c = (c \<in> set digits)"

text \<open>
  \<^verbatim>\<open>_negative_number_matcher\<close>, the regular expression \<^verbatim>\<open>^-\d+$|^-\d*\.\d+$\<close>;
  \<^verbatim>\<open>$\<close> also matches before a newline that ends the string.
\<close>

definition negative_number_matcher :: "string \<Rightarrow> bool" where
  "negative_number_matcher s =
     (case s of
        [] \<Rightarrow> False
      | c # r \<Rightarrow>
          c = CHR ''-'' \<and>
          (let body = (if r \<noteq> [] \<and> last r = CHR 0x0A then butlast r else r);
               int_part = takeWhile is_digit body;
               rest = dropWhile is_digit body
           in (int_part \<noteq> [] \<and> rest = []) \<or>
              (case rest of
                 [] \<Rightarrow> False
               | d # frac \<Rightarrow> d = CHR ''.'' \<and> frac \<noteq> [] \<and> list_all is_digit frac)))"

subsection \<open>\<^verbatim>\<open>_parse_optional\<close>: is an argument string an option?\<close>

text \<open>
  An option tuple is \<^verbatim>\<open>(action, option_string, sep, explicit_arg)\<close>; the action is
  \<open>None\<close> for a string that looks like an option the parser does not have.
\<close>

type_synonym option_tuple = "action option \<times> string \<times> string option \<times> string option"

text \<open>
  \<^verbatim>\<open>_get_option_tuples\<close>: the options a string abbreviates. A string that starts with
  two dashes is split at \<open>=\<close> and matches every option string it is a prefix of; a
  string with one dash matches the short option of its first two characters, the rest
  being the explicit argument. It is called on strings of two or more characters that
  start with a dash.
\<close>

definition get_option_tuples :: "string \<Rightarrow> option_tuple list" where
  "get_option_tuples option_string =
     (case option_string of
        c0 # c1 # _ \<Rightarrow>
          if c1 = CHR ''-'' then
            (case partition_eq option_string of
               (option_prefix, sep, explicit_arg) \<Rightarrow>
                 map (\<lambda>(os, a). (Some a, os,
                        if sep = [] then None else Some sep,
                        if sep = [] then None else Some explicit_arg))
                   (filter (\<lambda>(os, a). startswith os option_prefix) option_string_actions))
          else
            concat (map (\<lambda>(os, a).
                if os = take 2 option_string then
                  [(Some a, os, Some [], Some (drop 2 option_string))]
                else if startswith os option_string then [(Some a, os, None, None)]
                else []) option_string_actions)
      | _ \<Rightarrow> [])"

text \<open>
  The result is \<open>Inr None\<close> for a positional string, \<open>Inr (Some t)\<close> for an option,
  and \<open>Inl msg\<close> where the parser calls \<^verbatim>\<open>self.error\<close> on an ambiguous abbreviation.
\<close>

definition parse_optional :: "string \<Rightarrow> string + option_tuple option" where
  "parse_optional arg_string =
     (if arg_string = [] then Inr None
      else if hd arg_string \<noteq> CHR ''-'' then Inr None
      else (case map_of option_string_actions arg_string of
          Some a \<Rightarrow> Inr (Some (Some a, arg_string, None, None))
        | None \<Rightarrow>
            if length arg_string = 1 then Inr None
            else (case partition_eq arg_string of (option_string, sep, explicit_arg) \<Rightarrow>
              (case (if sep = [] then None else map_of option_string_actions option_string) of
                 Some a \<Rightarrow> Inr (Some (Some a, option_string, Some sep, Some explicit_arg))
               | None \<Rightarrow>
                   (let option_tuples = get_option_tuples arg_string in
                    if length option_tuples > 1 then
                      Inl (''ambiguous option: '' @ arg_string @ '' could match '' @
                           join_with '', '' (map (\<lambda>(a, os, sep, ea). os) option_tuples))
                    else if length option_tuples = 1 then Inr (Some (hd option_tuples))
                    else if negative_number_matcher arg_string then Inr None
                    else if CHR '' '' \<in> set arg_string then Inr None
                    else Inr (Some (None, arg_string, None, None)))))))"

subsection \<open>\<^verbatim>\<open>_parse_known_args\<close>\<close>

text \<open>
  First every argument string gets its pattern letter: \<^verbatim>\<open>O\<close> with its option tuple,
  \<^verbatim>\<open>A\<close> for an argument, \<^verbatim>\<open>-\<close> for the first \<^verbatim>\<open>--\<close>, after which every
  string is an argument.
\<close>

datatype pattern = Opt option_tuple | Arg | Dash

fun classify :: "string list \<Rightarrow> string + (string \<times> pattern) list" where
  "classify [] = Inr []"
| "classify (arg_string # rest) =
     (if arg_string = ''--'' then Inr ((arg_string, Dash) # map (\<lambda>a. (a, Arg)) rest)
      else (case parse_optional arg_string of
          Inl msg \<Rightarrow> Inl msg
        | Inr option_tuple \<Rightarrow>
            (case classify rest of
               Inl msg \<Rightarrow> Inl msg
             | Inr ps \<Rightarrow>
                 Inr ((arg_string, case option_tuple of None \<Rightarrow> Arg | Some t \<Rightarrow> Opt t) # ps))))"

text \<open>
  \<^verbatim>\<open>_match_argument\<close> for an optional: the pattern of the strings that follow is
  matched against \<^verbatim>\<open>()\<close> when the action takes no argument and against \<^verbatim>\<open>(A)\<close>
  when it takes one. The result is the number of strings taken.
\<close>

definition match_argument :: "action \<Rightarrow> (string \<times> pattern) list \<Rightarrow> string + nat" where
  "match_argument a following =
     (if nargs a = 0 then Inr 0
      else (case following of
          (_, Arg) # _ \<Rightarrow> Inr 1
        | _ \<Rightarrow> Inl (argument_error a ''expected one argument'')))"

text \<open>
  The \<^verbatim>\<open>while True\<close> loop of \<^verbatim>\<open>consume_optional\<close> for an option the parser has.
  With an explicit argument, an action that takes none and was given by its short option
  passes the rest on as further short options (\<^verbatim>\<open>-hl5\<close> is \<^verbatim>\<open>-h -l5\<close>); an
  action that takes one argument takes the explicit one. Without an explicit argument
  the action takes what \<open>match_argument\<close> gives it. The result is the actions to take
  with their arguments, the strings to add to \<^verbatim>\<open>extras\<close>, and how many of the
  following strings were consumed.
\<close>

type_synonym action_tuple = "action \<times> string list \<times> string"

function consume_optional ::
  "pylib \<Rightarrow> action \<Rightarrow> string \<Rightarrow> string option \<Rightarrow> string option \<Rightarrow> (string \<times> pattern) list
     \<Rightarrow> action_tuple list \<Rightarrow> string + (action_tuple list \<times> string list \<times> nat)" where
  "consume_optional lib a option_string sep explicit_arg following action_tuples =
     (case explicit_arg of
        Some ea \<Rightarrow>
          if nargs a = 0 \<and> option_string ! 1 \<noteq> CHR ''-'' \<and> ea \<noteq> [] then
            if (sep \<noteq> None \<and> sep \<noteq> Some []) \<or> hd ea = CHR ''-'' then
              Inl (argument_error a (''ignored explicit argument '' @ repr lib ea))
            else
              (case map_of option_string_actions [CHR ''-'', hd ea] of
                 Some a' \<Rightarrow>
                   consume_optional lib a' [CHR ''-'', hd ea]
                     (if tl ea = [] then None
                      else if hd (tl ea) = CHR ''='' then Some ''='' else Some [])
                     (if tl ea = [] then None
                      else if hd (tl ea) = CHR ''='' then Some (tl (tl ea)) else Some (tl ea))
                     following (action_tuples @ [(a, [], option_string)])
               | None \<Rightarrow>
                   Inr (action_tuples @ [(a, [], option_string)], [CHR ''-'' # ea], 0))
          else if nargs a = 1 then
            Inr (action_tuples @ [(a, [ea], option_string)], [], 0)
          else
            Inl (argument_error a (''ignored explicit argument '' @ repr lib ea))
      | None \<Rightarrow>
          (case match_argument a following of
             Inl msg \<Rightarrow> Inl msg
           | Inr arg_count \<Rightarrow>
               Inr (action_tuples @ [(a, map fst (take arg_count following), option_string)],
                    [], arg_count)))"
  by pat_completeness auto
termination
  by (relation "measure (\<lambda>(lib, a, os, sep, ea, following, ats).
        case ea of None \<Rightarrow> 0 | Some s \<Rightarrow> Suc (length s))")
     (auto split: if_splits)

text \<open>
  How \<^verbatim>\<open>parse_args\<close> ends: with the namespace, or in \<^verbatim>\<open>sys.exit\<close> from the help
  action (after printing the help text) or from \<^verbatim>\<open>parser.error\<close> with a message.
\<close>

datatype parse_result = Parsed namespace | HelpExit | ParseError string

datatype 'a step = Continue 'a | Stop parse_result

text \<open>
  \<^verbatim>\<open>take_action\<close>: the help action prints and exits; a store action converts its one
  argument string with the option's \<^verbatim>\<open>type\<close> (\<^verbatim>\<open>_get_value\<close>: \<^verbatim>\<open>int\<close> for the
  length, \<^verbatim>\<open>str\<close> for the prefix) and sets the attribute. A store action is always
  handed exactly one string (\<open>consume_optional_args\<close> below).
\<close>

fun take_action :: "pylib \<Rightarrow> action_tuple \<Rightarrow> namespace \<Rightarrow> namespace step" where
  "take_action lib (Help, argument_strings, option_string) ns = Stop HelpExit"
| "take_action lib (Length, argument_strings, option_string) ns =
     (case argument_strings of
        [arg_string] \<Rightarrow>
          (case py_int lib arg_string of
             None \<Rightarrow> Stop (ParseError (argument_error Length
                        (''invalid int value: '' @ repr lib arg_string)))
           | Some v \<Rightarrow> Continue (ns\<lparr>args_length := v\<rparr>))
      | _ \<Rightarrow> Continue ns)"
| "take_action lib (Prefix, argument_strings, option_string) ns =
     (case argument_strings of
        [arg_string] \<Rightarrow> Continue (ns\<lparr>args_prefix := arg_string\<rparr>)
      | _ \<Rightarrow> Continue ns)"

fun take_actions :: "pylib \<Rightarrow> action_tuple list \<Rightarrow> namespace \<Rightarrow> namespace step" where
  "take_actions lib [] ns = Continue ns"
| "take_actions lib (t # ts) ns =
     (case take_action lib t ns of
        Stop r \<Rightarrow> Stop r
      | Continue ns' \<Rightarrow> take_actions lib ts ns')"

text \<open>
  The main loop. The parser has no positional argument, so every string that no option
  consumes goes to \<^verbatim>\<open>extras\<close>, as does an option-like string the parser does not
  know. At the end \<^verbatim>\<open>parse_args\<close> reports the extras as unrecognized arguments.
\<close>

function parse_loop ::
  "pylib \<Rightarrow> (string \<times> pattern) list \<Rightarrow> namespace \<Rightarrow> string list \<Rightarrow> parse_result" where
  "parse_loop lib [] ns extras =
     (if extras \<noteq> [] then ParseError (''unrecognized arguments: '' @ join_with '' '' extras)
      else Parsed ns)"
| "parse_loop lib ((arg_string, Arg) # following) ns extras =
     parse_loop lib following ns (extras @ [arg_string])"
| "parse_loop lib ((arg_string, Dash) # following) ns extras =
     parse_loop lib following ns (extras @ [arg_string])"
| "parse_loop lib ((arg_string, Opt (None, option_string, sep, explicit_arg)) # following) ns extras =
     parse_loop lib following ns (extras @ [arg_string])"
| "parse_loop lib ((arg_string, Opt (Some a, option_string, sep, explicit_arg)) # following) ns extras =
     (case consume_optional lib a option_string sep explicit_arg following [] of
        Inl msg \<Rightarrow> ParseError msg
      | Inr (action_tuples, more_extras, arg_count) \<Rightarrow>
          (case take_actions lib action_tuples ns of
             Stop r \<Rightarrow> r
           | Continue ns' \<Rightarrow>
               parse_loop lib (drop arg_count following) ns' (extras @ more_extras)))"
  by pat_completeness auto
termination
  by (relation "measure (\<lambda>(lib, ps, ns, extras). length ps)") auto

text \<open>\<^verbatim>\<open>parser.parse_args()\<close>, starting from the namespace of the defaults.\<close>

definition parse_args :: "pylib \<Rightarrow> string list \<Rightarrow> parse_result" where
  "parse_args lib args =
     (case classify args of
        Inl msg \<Rightarrow> ParseError msg
      | Inr ps \<Rightarrow> parse_loop lib ps \<lparr>args_length = 32, args_prefix = []\<rparr> [])"

subsection \<open>The script\<close>

text \<open>
  The \<^verbatim>\<open>__main__\<close> block on the arguments \<^verbatim>\<open>sys.argv[1:]\<close>: the exit status
  and the world it leaves. \<^verbatim>\<open>parser.error\<close> prints the usage and the message to
  standard error and exits with status 2; the help action prints the help text to
  standard output and exits with status 0; an uncaught exception prints its traceback
  to standard error and the interpreter exits with status 1.
\<close>

definition main :: "pylib \<Rightarrow> string list \<Rightarrow> 'a world_scheme \<Rightarrow> int \<times> 'a world_scheme" where
  "main lib argv w =
     (case parse_args lib argv of
        ParseError msg \<Rightarrow>
          (2, w\<lparr>stderr := stderr w @ format_usage lib @ prog lib @ '': error: '' @ msg
                          @ [CHR 0x0A]\<rparr>)
      | HelpExit \<Rightarrow> (0, w\<lparr>stdout := stdout w @ format_help lib\<rparr>)
      | Parsed args \<Rightarrow>
          (case run args w of
             (Inl err, w') \<Rightarrow> (1, w'\<lparr>stderr := stderr w' @ format_traceback lib err\<rparr>)
           | (Inr _, w') \<Rightarrow> (0, w')))"

subsection \<open>Kinds of command lines\<close>





text \<open>
  A well-formed command line is a sequence of length and prefix options, each with its
  value: attached to the option (\<^verbatim>\<open>--length=8\<close>, \<^verbatim>\<open>-l8\<close>, \<^verbatim>\<open>-psk_\<close>) or given
  as the next string, which then must not look like an option. The length's value must be
  one \<^verbatim>\<open>int\<close> converts; the help option takes no value and is not part of such a line.
  Every other command line is malformed: a string that belongs to no option, an
  unrecognized or ambiguous flag, a missing or surplus value, a non-integer length,
  \<^verbatim>\<open>--\<close>.
\<close>

fun value_accepted :: "pylib \<Rightarrow> action \<Rightarrow> string \<Rightarrow> bool" where
  "value_accepted lib Help v = False"
| "value_accepted lib Length v = (py_int lib v \<noteq> None)"
| "value_accepted lib Prefix v = True"

fun well_formed :: "pylib \<Rightarrow> string list \<Rightarrow> bool" where
  "well_formed lib [] = True"
| "well_formed lib (s # rest) =
     (s \<noteq> ''--'' \<and>
      (case parse_optional s of
         Inr (Some (Some a, _, _, Some v)) \<Rightarrow> value_accepted lib a v \<and> well_formed lib rest
       | Inr (Some (Some a, _, _, None)) \<Rightarrow>
           (case rest of
              [] \<Rightarrow> False
            | v # rest' \<Rightarrow>
                v \<noteq> ''--'' \<and> parse_optional v = Inr None \<and> value_accepted lib a v
                \<and> well_formed lib rest')
       | _ \<Rightarrow> False))"





subsection \<open>What the source documents about the length\<close>


subsection \<open>An interpreter for the examples\<close>

text \<open>
  The statements below hold for every value of the parameters. The examples run the
  script with the usage and help texts CPython 3.11 prints on a terminal of 80 columns,
  a traceback cut to its first and last line, and with \<^verbatim>\<open>int\<close> and \<^verbatim>\<open>repr\<close> as
  they are on plain inputs: a decimal literal with an optional sign, a string without
  quotes or escapes.
\<close>

fun read_digits :: "string \<Rightarrow> nat \<Rightarrow> nat option" where
  "read_digits [] acc = Some acc"
| "read_digits (c # cs) acc =
     (if is_digit c then read_digits cs (10 * acc + (of_char c - 48)) else None)"

definition decimal_int :: "string \<Rightarrow> int option" where
  "decimal_int s =
     (case s of
        [] \<Rightarrow> None
      | c # cs \<Rightarrow>
          if c = CHR ''-'' then
            (if cs = [] then None else map_option (\<lambda>n. - int n) (read_digits cs 0))
          else if c = CHR ''+'' then
            (if cs = [] then None else map_option int (read_digits cs 0))
          else map_option int (read_digits s 0))"

definition unlines :: "string list \<Rightarrow> string" where
  "unlines ls = concat (map (\<lambda>l. l @ [CHR 0x0A]) ls)"

definition cpython :: pylib where
  "cpython =
     \<lparr>prog = ''generate_api_key.py'',
      format_usage = unlines [''usage: generate_api_key.py [-h] [-l LENGTH] [-p PREFIX]''],
      format_help = unlines
        [''usage: generate_api_key.py [-h] [-l LENGTH] [-p PREFIX]'',
         '''',
         ''Generate a secure API key'',
         '''',
         ''options:'',
         ''  -h, --help            show this help message and exit'',
         ''  -l LENGTH, --length LENGTH'',
         ''                        Length of the API key (default: 32)'',
         ''  -p PREFIX, --prefix PREFIX'',
         ''                        Optional prefix for the API key''],
      format_traceback = (\<lambda>err. unlines
        [''Traceback (most recent call last):'', ''IndexError: Cannot choose from an empty sequence'']),
      py_int = decimal_int,
      repr = (\<lambda>s. [CHR 0x27] @ s @ [CHR 0x27])\<rparr>"

text \<open>A world with nothing written yet, whose random source counts \<open>0, 1, 2, \<dots>\<close>.\<close>

definition fresh :: world where
  "fresh = \<lparr>stdout = [], stderr = [], urandom = (\<lambda>i. i)\<rparr>"

section \<open>Properties\<close>

lemma alphabet_eq:
  "alphabet = ''abcdefghijklmnopqrstuvwxyzABCDEFGHIJKLMNOPQRSTUVWXYZ0123456789''"
  by (simp add: alphabet_def ascii_letters_def ascii_lowercase_def ascii_uppercase_def
      digits_def)

lemma alphabet_not_Nil: "alphabet \<noteq> []"
  by (simp add: alphabet_eq)

lemma choice_nonempty:
  assumes "seq \<noteq> []"
  shows "\<exists>c. c \<in> set seq \<and> choice seq e = (Inr c, \<lambda>i. e (Suc i))"
  using assms by (simp add: choice_def randbelow_def)

lemma join_choices_nonempty:
  assumes "alpha \<noteq> []"
  shows "\<exists>s e'. join_choices xs alpha e = (Inr s, e') \<and> length s = length xs
           \<and> set s \<subseteq> set alpha \<and> e' = (\<lambda>i. e (i + length xs))"
proof (induction xs arbitrary: e)
  case Nil
  show ?case by simp
next
  case (Cons x xs)
  from choice_nonempty [OF assms, of e] obtain c where
    c: "c \<in> set alpha" "choice alpha e = (Inr c, \<lambda>i. e (Suc i))" by blast
  from Cons.IH [of "\<lambda>i. e (Suc i)"] obtain s e' where
    s: "join_choices xs alpha (\<lambda>i. e (Suc i)) = (Inr s, e')" "length s = length xs"
       "set s \<subseteq> set alpha" "e' = (\<lambda>i. e (Suc (i + length xs)))" by blast
  from c s show ?case by simp
qed

lemma length_py_range: "length (py_range n) = nat n"
  by (simp add: py_range_def)

lemma generate_api_key_total:
  "\<exists>s. generate_api_key n e = (Inr s, \<lambda>i. e (i + nat n)) \<and> length s = nat n
       \<and> set s \<subseteq> set alphabet"
  using join_choices_nonempty [OF alphabet_not_Nil, of "py_range n" e]
  by (auto simp: generate_api_key_def length_py_range)

lemma alphabet_codes:
  "(of_char ` set alphabet :: nat set) = {65..90} \<union> {97..122} \<union> {48..57}"
proof -
  have "{65..90::nat} = {65..<91}" "{97..122::nat} = {97..<123}" "{48..57::nat} = {48..<58}"
    by auto
  then have ranges: "{65..90::nat} = set [65..<91]" "{97..122::nat} = set [97..<123]"
    "{48..57::nat} = set [48..<58]"
    by (simp_all only: atLeastLessThan_upt)
  show ?thesis unfolding ranges
    by (simp add: alphabet_eq insert_commute)
qed

lemma set_alphabet:
  "set alphabet = {c. (of_char c :: nat) \<in> {65..90} \<union> {97..122} \<union> {48..57}}"
proof -
  have "c \<in> set alphabet \<longleftrightarrow> (of_char c :: nat) \<in> of_char ` set alphabet" for c
    using inj_of_char [where ?'a = nat] by (simp add: inj_image_mem_iff)
  then show ?thesis unfolding alphabet_codes by blast
qed

lemma run_total:
  "\<exists>key. generate_api_key (args_length a) (urandom w) =
            (Inr key, \<lambda>i. urandom w (i + nat (args_length a)))
     \<and> length key = nat (args_length a) \<and> set key \<subseteq> set alphabet
     \<and> run a w = (Inr (), w\<lparr>urandom := \<lambda>i. urandom w (i + nat (args_length a)),
                            stdout := stdout w @ args_prefix a @ key @ [CHR 0x0A]\<rparr>)"
proof -
  from generate_api_key_total [of "args_length a" "urandom w"] obtain key where
    key: "generate_api_key (args_length a) (urandom w) =
            (Inr key, \<lambda>i. urandom w (i + nat (args_length a)))"
      "length key = nat (args_length a)" "set key \<subseteq> set alphabet" by blast
  then show ?thesis by (simp add: run_def print_def)
qed

subsection \<open>The parser's loop\<close>





declare consume_optional.simps [simp del]



text \<open>
  Every action gets as many argument strings as it takes: the help action none, a store
  action one. The last case of \<open>take_action\<close> for a store action never arises.
\<close>

lemma nargs_le_1: "nargs a = 0 \<or> nargs a = 1"
  by (cases a) simp_all

lemma consume_optional_args:
  "consume_optional lib a os sep ea following ats = Inr (ts, more_extras, n) \<Longrightarrow>
     \<forall>(a', args, os') \<in> set ats. length args = nargs a' \<Longrightarrow>
     \<forall>(a', args, os') \<in> set ts. length args = nargs a'"
proof (induction lib a os sep ea following ats rule: consume_optional.induct)
  case (1 lib a option_string sep explicit_arg following action_tuples)
  from "1.prems" "1.IH" nargs_le_1 [of a] show ?case
    by (subst (asm) consume_optional.simps)
       (fastforce simp: match_argument_def split: option.splits if_splits sum.splits list.splits pattern.splits)
qed












subsection \<open>The parser accepts exactly the well-formed command lines\<close>





lemma take_actions_Help: "take_actions lib ((Help, args, os) # rest) ns = Stop HelpExit"
  by simp











lemma main_Parsed:
  assumes "parse_args lib argv = Parsed args"
  shows "\<exists>key. generate_api_key (args_length args) (urandom w) =
                 (Inr key, \<lambda>i. urandom w (i + nat (args_length args)))
           \<and> length key = nat (args_length args) \<and> set key \<subseteq> set alphabet
           \<and> main lib argv w =
               (0, w\<lparr>urandom := \<lambda>i. urandom w (i + nat (args_length args)),
                      stdout := stdout w @ args_prefix args @ key @ [CHR 0x0A]\<rparr>)"
proof -
  from run_total [of args w] obtain key where
    key: "generate_api_key (args_length args) (urandom w) =
            (Inr key, \<lambda>i. urandom w (i + nat (args_length args)))"
      "length key = nat (args_length args)" "set key \<subseteq> set alphabet"
      "run args w = (Inr (), w\<lparr>urandom := \<lambda>i. urandom w (i + nat (args_length args)),
                            stdout := stdout w @ args_prefix args @ key @ [CHR 0x0A]\<rparr>)"
    by blast
  with assms show ?thesis by (simp add: main_def)
qed

lemma generate_api_key_nonpositive: "n \<le> 0 \<Longrightarrow> generate_api_key n e = (Inr [], e)"
  by (simp add: generate_api_key_def py_range_def)

lemma run_nonpositive:
  "n \<le> 0 \<Longrightarrow> run \<lparr>args_length = n, args_prefix = p\<rparr> w
     = (Inr (), w\<lparr>stdout := stdout w @ p @ [CHR 0x0A]\<rparr>)"
  by (simp add: run_def print_def generate_api_key_nonpositive)

lemma main_nonpositive:
  assumes "parse_args lib argv = Parsed \<lparr>args_length = n, args_prefix = p\<rparr>" "n \<le> 0"
  shows "main lib argv w = (0, w\<lparr>stdout := stdout w @ p @ [CHR 0x0A]\<rparr>)"
  using assms by (simp add: main_def run_nonpositive)

subsection \<open>The generated segment\<close>

text \<open>
  C1. For every length \<open>n \<ge> 0\<close> and every state of the random source,
  \<open>generate_api_key n\<close> returns (it does not raise) a string of exactly \<open>n\<close>
  characters, each of them one of the 62 characters \<open>A-Z\<close>, \<open>a-z\<close>, \<open>0-9\<close>.
\<close>

theorem generate_api_key_length_alnum:
  assumes "0 \<le> n"
  shows "\<exists>s e'. generate_api_key n e = (Inr s, e') \<and> int (length s) = n
           \<and> set s \<subseteq> set ''ABCDEFGHIJKLMNOPQRSTUVWXYZabcdefghijklmnopqrstuvwxyz0123456789''"
proof -
  from generate_api_key_total [of n e] obtain s where
    s: "generate_api_key n e = (Inr s, \<lambda>i. e (i + nat n))" "length s = nat n"
       "set s \<subseteq> set alphabet" by blast
  have "set alphabet = set ''ABCDEFGHIJKLMNOPQRSTUVWXYZabcdefghijklmnopqrstuvwxyz0123456789''"
    unfolding alphabet_eq by (simp add: insert_commute)
  with s assms show ?thesis by simp
qed

theorem generate_api_key_length_alnum_witness:
  "(0::int) \<le> 3 \<and>
   (\<exists>s e'. generate_api_key 3 (\<lambda>i. 7 * i + 5) = (Inr s, e') \<and> int (length s) = 3
      \<and> set s \<subseteq> set ''ABCDEFGHIJKLMNOPQRSTUVWXYZabcdefghijklmnopqrstuvwxyz0123456789'')"
  using generate_api_key_length_alnum [of 3 "\<lambda>i. 7 * i + 5"] by simp

text \<open>
  C8. The alphabet is a constant of the program: it depends on no argument and on no
  state, so every call of \<open>generate_api_key\<close> draws from the same one. It has 62
  characters, no character twice, and they are exactly the ASCII capital letters
  (codes 65 to 90), small letters (97 to 122) and digits (48 to 57).
\<close>

theorem alphabet_62_alnum:
  "length alphabet = 62 \<and> distinct alphabet
   \<and> set alphabet = {c. (of_char c :: nat) \<in> {65..90} \<union> {97..122} \<union> {48..57}}
   \<and> generate_api_key n e = join_choices (py_range n) alphabet e"
proof -
  have "length alphabet = 62" by (simp add: alphabet_eq)
  moreover have "distinct alphabet" by (simp add: alphabet_eq)
  ultimately show ?thesis using set_alphabet by (simp add: generate_api_key_def)
qed

subsection \<open>The printed line\<close>

text \<open>
  C2. For every namespace with length \<open>\<ge> 0\<close>, \<open>run\<close> ends normally and the only
  thing written is one line on standard output: the prefix as given, then the string
  \<open>generate_api_key\<close> returned for that length, then one newline. Standard error and
  the rest of the world keep their contents.
\<close>

theorem run_prints_prefix_key_newline:
  assumes "0 \<le> args_length a"
  shows "\<exists>key e'. generate_api_key (args_length a) (urandom w) = (Inr key, e')
           \<and> int (length key) = args_length a
           \<and> run a w = (Inr (), w\<lparr>urandom := e',
                  stdout := stdout w @ args_prefix a @ key @ [CHR 0x0A]\<rparr>)"
proof -
  from run_total [of a w] obtain key where
    "generate_api_key (args_length a) (urandom w) =
       (Inr key, \<lambda>i. urandom w (i + nat (args_length a)))"
    "length key = nat (args_length a)"
    "run a w = (Inr (), w\<lparr>urandom := \<lambda>i. urandom w (i + nat (args_length a)),
                   stdout := stdout w @ args_prefix a @ key @ [CHR 0x0A]\<rparr>)" by blast
  with assms show ?thesis by simp
qed

theorem run_prints_prefix_key_newline_witness:
  "(0::int) \<le> args_length \<lparr>args_length = 2, args_prefix = ''sk_''\<rparr> \<and>
   run \<lparr>args_length = 2, args_prefix = ''sk_''\<rparr>
       \<lparr>stdout = [], stderr = [], urandom = \<lambda>i. 30 * i + 1\<rparr>
     = (Inr (), \<lparr>stdout = ''sk_bF'' @ [CHR 0x0A], stderr = [],
                  urandom = \<lambda>i. 30 * (i + 2) + 1\<rparr>)"
proof -
  have "generate_api_key 2 (\<lambda>i. 30 * i + 1) = (Inr ''bF'', \<lambda>i. 30 * (i + 2) + 1)"
    by (simp add: generate_api_key_def py_range_def upto.simps alphabet_eq choice_def
        randbelow_def)
  with run_prints_prefix_key_newline
         [of "\<lparr>args_length = 2, args_prefix = ''sk_''\<rparr>"
             "\<lparr>stdout = [], stderr = [], urandom = \<lambda>i. 30 * i + 1\<rparr>"]
  show ?thesis by simp
qed

text \<open>
  C3. \<open>generate_api_key 0\<close> returns the empty string and reads no randomness, so for
  length 0 the printed line is the prefix alone: just the newline when the prefix is
  empty too.
\<close>

theorem length_zero_prints_prefix:
  "generate_api_key 0 e = (Inr [], e)
   \<and> run \<lparr>args_length = 0, args_prefix = p\<rparr> w = (Inr (), w\<lparr>stdout := stdout w @ p @ [CHR 0x0A]\<rparr>)
   \<and> run \<lparr>args_length = 0, args_prefix = []\<rparr> w = (Inr (), w\<lparr>stdout := stdout w @ [CHR 0x0A]\<rparr>)"
proof -
  have "generate_api_key 0 e' = (Inr [], e')" for e'
    by (simp add: generate_api_key_def py_range_def)
  then show ?thesis by (simp add: run_def print_def)
qed

subsection \<open>Negative lengths\<close>




text \<open>
  C5. For every negative length \<open>generate_api_key\<close> returns the empty string: it raises
  nothing and reads no randomness. A command line parsed to a negative length prints the
  prefix and a newline, writes nothing else and exits with status 0.
\<close>

theorem negative_length_prints_prefix_alone:
  assumes "n < 0" and "parse_args lib argv = Parsed \<lparr>args_length = n, args_prefix = p\<rparr>"
  shows "generate_api_key n e = (Inr [], e)
         \<and> main lib argv w = (0, w\<lparr>stdout := stdout w @ p @ [CHR 0x0A]\<rparr>)"
  using assms generate_api_key_nonpositive [of n e] main_nonpositive [of lib argv n p w]
  by simp

theorem negative_length_prints_prefix_alone_witness:
  "(-5::int) < 0
   \<and> parse_args cpython [''--length'', ''-5'', ''--prefix'', ''sk_'']
       = Parsed \<lparr>args_length = -5, args_prefix = ''sk_''\<rparr>
   \<and> generate_api_key (-5) (urandom fresh) = (Inr [], urandom fresh)
   \<and> main cpython [''--length'', ''-5'', ''--prefix'', ''sk_''] fresh
       = (0, fresh\<lparr>stdout := ''sk_'' @ [CHR 0x0A]\<rparr>)"
proof -
  have p: "parse_args cpython [''--length'', ''-5'', ''--prefix'', ''sk_'']
             = Parsed \<lparr>args_length = -5, args_prefix = ''sk_''\<rparr>"
    by code_simp
  have n: "(-5::int) < 0" by simp
  from negative_length_prints_prefix_alone [OF n p, of "urandom fresh" fresh] p
  show ?thesis by (simp add: fresh_def)
qed

subsection \<open>Defaults\<close>

text \<open>
  C7. With no argument on the command line the namespace is the defaults, length 32
  and the empty prefix, and the script prints one line of 32 characters out of
  \<open>A-Z\<close>, \<open>a-z\<close>, \<open>0-9\<close>, and exits with status 0.
\<close>

theorem default_options:
  "parse_args lib [] = Parsed \<lparr>args_length = 32, args_prefix = []\<rparr>
   \<and> (\<exists>key e'. main lib [] w = (0, w\<lparr>urandom := e', stdout := stdout w @ key @ [CHR 0x0A]\<rparr>)
         \<and> length key = 32
         \<and> set key \<subseteq> set ''ABCDEFGHIJKLMNOPQRSTUVWXYZabcdefghijklmnopqrstuvwxyz0123456789'')"
proof -
  have p: "parse_args lib [] = Parsed \<lparr>args_length = 32, args_prefix = []\<rparr>"
    by (simp add: parse_args_def)
  from main_Parsed [OF p, of w] obtain key where
    key: "length key = nat 32" "set key \<subseteq> set alphabet"
      "main lib [] w = (0, w\<lparr>urandom := \<lambda>i. urandom w (i + nat 32),
                             stdout := stdout w @ key @ [CHR 0x0A]\<rparr>)"
    by auto
  have "set alphabet = set ''ABCDEFGHIJKLMNOPQRSTUVWXYZabcdefghijklmnopqrstuvwxyz0123456789''"
    unfolding alphabet_eq by (simp add: insert_commute)
  with p key show ?thesis by auto
qed

subsection \<open>Rejected command lines\<close>




text \<open>Malformed command lines of other kinds, all rejected in the same way.\<close>

lemma malformed_examples:
  "\<not> well_formed cpython [''--length'']"
  "\<not> well_formed cpython [''-p'']"
  "\<not> well_formed cpython [''-l'', ''5'', ''6'']"
  "\<not> well_formed cpython [''--=5'']"
  "\<not> well_formed cpython [''--'']"
  "\<not> well_formed cpython [''--bogus'']"
  "parse_args cpython [''--length''] = ParseError ''argument -l/--length: expected one argument''"
  "parse_args cpython [''-l'', ''5'', ''6''] = ParseError ''unrecognized arguments: 6''"
  "parse_args cpython [''--''] = ParseError ''unrecognized arguments: --''"
  by code_simp+

end
